theory Spec2Isabelle
  imports Main
begin

section \<open>The SQL backend: \<^verbatim>\<open>backend/src/index.js\<close>\<close>

text \<open>
  The backend keeps all of its state in PostgreSQL tables and reaches them through SQL
  text. The tables are modelled as the rows the statements read and write: \<^verbatim>\<open>users\<close> as
  a map from the primary key, \<^verbatim>\<open>spin_wheels\<close>, \<^verbatim>\<open>spin_participants\<close> and
  \<^verbatim>\<open>transactions\<close> as lists of rows in insertion order, the two serial keys as
  counters. Amounts are JavaScript numbers that hold integers; they are modelled as
  \<^typ>\<open>int\<close>, which agrees with the double arithmetic of the code as long as every
  intermediate value stays below \<open>2^53\<close>. Timestamps (\<^verbatim>\<open>now()\<close>) are natural numbers
  handed to each operation.
\<close>

subsection \<open>Tables\<close>

datatype wstatus = Pending | Active | Finished | Aborted

record user =
  coins :: int
  is_admin :: bool
  username :: string

record wheel =
  w_id :: nat
  owner_id :: nat
  entry_fee :: int
  status :: wstatus
  winner_pool :: int
  admin_pool :: int
  app_pool :: int
  min_participants :: int
  started_at :: "nat option"
  finished_at :: "nat option"

record participant =
  p_id :: nat
  wheel_id :: nat
  user_id :: nat
  eliminated_at :: "nat option"
  eliminated_order :: "int option"

datatype tx_type = Debit | Credit

text \<open>The \<^verbatim>\<open>meta\<close> column: \<^verbatim>\<open>{wheel}\<close>, \<^verbatim>\<open>{wheel, reason}\<close> or \<^verbatim>\<open>{wheel, role}\<close>.\<close>

datatype meta = MWheel nat | MReason nat string | MRole nat string

record transaction =
  tx_user :: nat
  amount :: int
  tx_kind :: tx_type
  tx_meta :: meta

text \<open>What \<^verbatim>\<open>io.emit\<close> broadcasts, in order.\<close>

datatype event =
    WheelCreated wheel
  | ParticipantJoined nat "participant list"
  | WheelStarted nat
  | WheelAborted nat string
  | UserEliminated nat nat string
  | WheelFinished nat nat

record db =
  users :: "nat \<rightharpoonup> user"
  spin_wheels :: "wheel list"
  wheel_seq :: nat
  spin_participants :: "participant list"
  participant_seq :: nat
  transactions :: "transaction list"
  config :: "string \<rightharpoonup> int"
  emitted :: "event list"

text \<open>
  The schema (\<^verbatim>\<open>migrations/001_schema.sql\<close>) is not part of the sources at hand. The
  two things the handlers leave to it are parameters of the model: whether
  \<^verbatim>\<open>spin_participants\<close> rejects a second row for the same wheel and user, and the
  column default of \<^verbatim>\<open>min_participants\<close>. New wheels start \<^verbatim>\<open>pending\<close> with empty
  pools, as every handler presupposes.
\<close>

record schema =
  unique_wheel_user :: bool
  default_min_participants :: int

datatype api_error =
    OnlyAdmin
  | ActiveWheelExists
  | WheelNotFound
  | WheelNotJoinable
  | WheelNotStartable
  | NotEnoughParticipants
  | UserNotFound
  | InsufficientCoins
  | UniqueViolation
  | InvalidInput

subsection \<open>Row access\<close>

definition get_wheel :: "db \<Rightarrow> nat \<Rightarrow> wheel option" where
  "get_wheel d wid = find (\<lambda>w. w_id w = wid) (spin_wheels d)"

definition update_wheel :: "nat \<Rightarrow> (wheel \<Rightarrow> wheel) \<Rightarrow> db \<Rightarrow> db" where
  "update_wheel wid f d =
     d\<lparr>spin_wheels := map (\<lambda>w. if w_id w = wid then f w else w) (spin_wheels d)\<rparr>"

text \<open>\<^verbatim>\<open>UPDATE users SET coins = coins + $1 WHERE id=$2\<close>: no row, no change.\<close>

definition add_coins :: "nat \<Rightarrow> int \<Rightarrow> db \<Rightarrow> db" where
  "add_coins uid n d =
     (case users d uid of
        None \<Rightarrow> d
      | Some u \<Rightarrow> d\<lparr>users := (users d)(uid \<mapsto> u\<lparr>coins := coins u + n\<rparr>)\<rparr>)"

definition insert_transaction :: "nat \<Rightarrow> int \<Rightarrow> tx_type \<Rightarrow> meta \<Rightarrow> db \<Rightarrow> db" where
  "insert_transaction uid n k m d =
     d\<lparr>transactions := transactions d @
        [\<lparr>tx_user = uid, amount = n, tx_kind = k, tx_meta = m\<rparr>]\<rparr>"

definition emit :: "event \<Rightarrow> db \<Rightarrow> db" where
  "emit e d = d\<lparr>emitted := emitted d @ [e]\<rparr>"

definition wheel_rows :: "db \<Rightarrow> nat \<Rightarrow> participant list" where
  "wheel_rows d wid = filter (\<lambda>p. wheel_id p = wid) (spin_participants d)"

definition active_rows :: "db \<Rightarrow> nat \<Rightarrow> participant list" where
  "active_rows d wid =
     filter (\<lambda>p. wheel_id p = wid \<and> eliminated_at p = None) (spin_participants d)"

subsection \<open>Fee split configuration\<close>

text \<open>JavaScript's \<^verbatim>\<open>x || d\<close> on a number that may be missing: zero is falsy too.\<close>

definition or_default :: "int option \<Rightarrow> int \<Rightarrow> int" where
  "or_default v d = (case v of None \<Rightarrow> d | Some n \<Rightarrow> if n = 0 then d else n)"

record fee_split =
  winner_pct :: int
  admin_pct :: int
  app_pct :: int

definition getConfigSplit :: "db \<Rightarrow> fee_split" where
  "getConfigSplit d =
     \<lparr>winner_pct = or_default (config d ''fee_split_winner_pct'') 70,
      admin_pct = or_default (config d ''fee_split_admin_pct'') 20,
      app_pct = or_default (config d ''fee_split_app_pct'') 10\<rparr>"

subsection \<open>Joining a wheel\<close>

text \<open>
  \<^verbatim>\<open>POST /api/wheels/:id/join\<close>. Everything between \<^verbatim>\<open>BEGIN\<close> and \<^verbatim>\<open>COMMIT\<close> is one
  transaction: an exception rolls it back, so an error leaves the database as it was and
  is reported with status 400. The only place where a repeated join can be noticed is the
  final \<^verbatim>\<open>INSERT INTO spin_participants\<close>; the handler itself never looks for an
  existing row.
\<close>

definition join :: "schema \<Rightarrow> db \<Rightarrow> nat \<Rightarrow> nat \<Rightarrow> api_error + db" where
  "join sch d wheelId uid =
     (case get_wheel d wheelId of
        None \<Rightarrow> Inl WheelNotFound
      | Some wheel \<Rightarrow>
          if status wheel \<noteq> Pending then Inl WheelNotJoinable
          else (case users d uid of
            None \<Rightarrow> Inl UserNotFound
          | Some usr \<Rightarrow>
              if coins usr < entry_fee wheel then Inl InsufficientCoins
              else
                let newCoins = coins usr - entry_fee wheel;
                    d1 = d\<lparr>users := (users d)(uid \<mapsto> usr\<lparr>coins := newCoins\<rparr>)\<rparr>;
                    d2 = insert_transaction uid (- entry_fee wheel) Debit (MWheel wheelId) d1;
                    splits = getConfigSplit d2;
                    winnerAmt = (entry_fee wheel * winner_pct splits) div 100;
                    adminAmt = (entry_fee wheel * admin_pct splits) div 100;
                    appAmt = entry_fee wheel - winnerAmt - adminAmt;
                    d3 = update_wheel wheelId
                           (\<lambda>w. w\<lparr>winner_pool := winner_pool w + winnerAmt,
                                  admin_pool := admin_pool w + adminAmt,
                                  app_pool := app_pool w + appAmt\<rparr>) d2
                in if unique_wheel_user sch
                      \<and> (\<exists>p \<in> set (spin_participants d3). wheel_id p = wheelId \<and> user_id p = uid)
                   then Inl UniqueViolation
                   else
                     let d4 = d3\<lparr>spin_participants := spin_participants d3 @
                                  [\<lparr>p_id = Suc (participant_seq d3), wheel_id = wheelId,
                                    user_id = uid, eliminated_at = None,
                                    eliminated_order = None\<rparr>],
                                participant_seq := Suc (participant_seq d3)\<rparr>
                     in Inr (emit (ParticipantJoined wheelId
                                (filter (\<lambda>p. users d4 (user_id p) \<noteq> None) (wheel_rows d4 wheelId))) d4)))"

subsection \<open>Creating a wheel\<close>





subsection \<open>Refund and payout\<close>

text \<open>
  \<^verbatim>\<open>refundWheel\<close>: one transaction. The loop looks the wheel up again for every
  participant row; should the wheel be missing, reading \<^verbatim>\<open>w.rows[0].entry_fee\<close> throws
  and the transaction is rolled back (\<open>None\<close> below). Errors are logged, not raised.
\<close>

fun refund_rows :: "nat \<Rightarrow> string \<Rightarrow> participant list \<Rightarrow> db \<Rightarrow> db option" where
  "refund_rows wheelId reason [] d = Some d"
| "refund_rows wheelId reason (p # ps) d =
     (case get_wheel d wheelId of
        None \<Rightarrow> None
      | Some w \<Rightarrow>
          let fee = entry_fee w;
              d1 = add_coins (user_id p) fee d;
              d2 = insert_transaction (user_id p) fee Credit (MReason wheelId reason) d1
          in refund_rows wheelId reason ps d2)"

definition refundWheel :: "nat \<Rightarrow> db \<Rightarrow> nat \<Rightarrow> string \<Rightarrow> db" where
  "refundWheel now d wheelId reason =
     (case refund_rows wheelId reason (wheel_rows d wheelId) d of
        None \<Rightarrow> d
      | Some d1 \<Rightarrow>
          update_wheel wheelId (\<lambda>w. w\<lparr>status := Aborted, finished_at := Some now\<rparr>) d1)"

text \<open>\<^verbatim>\<open>finalizeWinner\<close>: one transaction; a missing wheel rolls it back.\<close>

definition finalizeWinner :: "nat \<Rightarrow> db \<Rightarrow> nat \<Rightarrow> nat \<Rightarrow> db" where
  "finalizeWinner now d wheelId winnerUserId =
     (case get_wheel d wheelId of
        None \<Rightarrow> d
      | Some w \<Rightarrow>
          let d1 = (if winner_pool w > 0
                    then insert_transaction winnerUserId (winner_pool w) Credit
                           (MRole wheelId ''winner'')
                           (add_coins winnerUserId (winner_pool w) d)
                    else d);
              d2 = (if admin_pool w > 0
                    then insert_transaction (owner_id w) (admin_pool w) Credit
                           (MRole wheelId ''admin'')
                           (add_coins (owner_id w) (admin_pool w) d1)
                    else d1);
              d3 = update_wheel wheelId
                     (\<lambda>w. w\<lparr>status := Finished, finished_at := Some now\<rparr>) d2
          in emit (WheelFinished wheelId winnerUserId) d3)"

subsection \<open>The elimination loop\<close>

text \<open>
  \<^verbatim>\<open>startElimination\<close> keeps two variables for its timer callback: the shuffled array
  \<^verbatim>\<open>participants\<close> of (row id, user id) pairs and the cursor \<^verbatim>\<open>idx\<close>. The shuffle
  (\<^verbatim>\<open>sort\<close> with a random comparator) is a parameter. The array is loaded through a join
  with \<^verbatim>\<open>users\<close>, so rows without a user are left out of it.
\<close>

type_synonym cand = "nat \<times> nat"

record elim_loop =
  participants :: "cand list"
  idx :: nat

definition startElimination :: "(cand list \<Rightarrow> cand list) \<Rightarrow> db \<Rightarrow> nat \<Rightarrow> elim_loop option" where
  "startElimination shuffle d wheelId =
     (let parts = map (\<lambda>p. (p_id p, user_id p))
                    (filter (\<lambda>p. users d (user_id p) \<noteq> None) (active_rows d wheelId))
      in if length parts = 0 then None
         else Some \<lparr>participants = shuffle parts, idx = 0\<rparr>)"

text \<open>The timer callback of the deadline set at creation.\<close>

definition autoStartWheel ::
  "nat \<Rightarrow> (cand list \<Rightarrow> cand list) \<Rightarrow> db \<Rightarrow> nat \<Rightarrow> db \<times> elim_loop option" where
  "autoStartWheel now shuffle d wheelId =
     (case get_wheel d wheelId of
        None \<Rightarrow> (d, None)
      | Some wheel \<Rightarrow>
          if status wheel \<noteq> Pending then (d, None)
          else
            let count = int (length (wheel_rows d wheelId))
            in if count < min_participants wheel
               then (emit (WheelAborted wheelId ''not_enough_participants'')
                       (refundWheel now d wheelId ''not_enough_participants''), None)
               else
                 let d1 = update_wheel wheelId
                            (\<lambda>w. w\<lparr>status := Active, started_at := Some now\<rparr>) d;
                     d2 = emit (WheelStarted wheelId) d1
                 in (d2, startElimination shuffle d2 wheelId))"


text \<open>
  The \<^verbatim>\<open>while\<close> loop of \<^verbatim>\<open>eliminateOne\<close>: advance the cursor to the next candidate whose
  row is still not eliminated.
\<close>

function next_candidate :: "db \<Rightarrow> cand list \<Rightarrow> nat \<Rightarrow> cand option \<times> nat" where
  "next_candidate d ps i =
     (if i < length ps
      then (let cand = ps ! i
            in if \<exists>p \<in> set (spin_participants d). p_id p = fst cand \<and> eliminated_at p = None
               then (Some cand, Suc i)
               else next_candidate d ps (Suc i))
      else (None, i))"
  by pat_completeness auto
termination
  by (relation "measure (\<lambda>(d, ps, i). length ps - i)") auto

declare next_candidate.simps [simp del]

text \<open>
  How a tick ends: it set the next timer, it finished the wheel, or it threw after its
  update (the eliminated row's user is missing, so \<^verbatim>\<open>user.rows[0].username\<close> fails; no
  further timer is set).
\<close>

datatype tick = Rescheduled | Done | Crashed

text \<open>
  \<^verbatim>\<open>eliminateOne\<close>. With more than one active row the tick marks one row; the value
  written to \<^verbatim>\<open>eliminated_order\<close> is the subquery
  \<^verbatim>\<open>SELECT COUNT(*) FROM spin_participants WHERE wheel_id=$1\<close>. The statements run
  outside a transaction, each committed on its own.
\<close>

definition eliminateOne :: "nat \<Rightarrow> db \<Rightarrow> nat \<Rightarrow> elim_loop \<Rightarrow> db \<times> elim_loop \<times> tick" where
  "eliminateOne now d wheelId lp =
     (let active = active_rows d wheelId
      in if length active \<le> 1
         then (if length active = 1
               then (finalizeWinner now d wheelId (user_id (hd active)), lp, Done)
               else (update_wheel wheelId
                       (\<lambda>w. w\<lparr>status := Finished, finished_at := Some now\<rparr>) d, lp, Done))
         else
           let (found, i) = next_candidate d (participants lp) (idx lp);
               eliminated = (case found of
                               Some cand \<Rightarrow> cand
                             | None \<Rightarrow> (p_id (hd active), user_id (hd active)));
               n = int (length (wheel_rows d wheelId));
               d1 = d\<lparr>spin_participants :=
                        map (\<lambda>p. if p_id p = fst eliminated
                                 then p\<lparr>eliminated_at := Some now, eliminated_order := Some n\<rparr>
                                 else p) (spin_participants d)\<rparr>
           in (case users d1 (snd eliminated) of
                 None \<Rightarrow> (d1, lp\<lparr>idx := i\<rparr>, Crashed)
               | Some u \<Rightarrow>
                   (emit (UserEliminated wheelId (snd eliminated) (username u)) d1,
                    lp\<lparr>idx := i\<rparr>, Rescheduled)))"

text \<open>
  The ticks of one loop, seven seconds apart, until a tick sets no further timer. Every
  rescheduling tick marks a row that was not eliminated before, which bounds the loop.
\<close>

function run_elimination :: "nat \<Rightarrow> db \<Rightarrow> nat \<Rightarrow> elim_loop \<Rightarrow> db \<times> tick" where
  "run_elimination now d wheelId lp =
     (let r = eliminateOne now d wheelId lp
      in if snd (snd r) = Rescheduled
         then run_elimination (now + 7) (fst r) wheelId (fst (snd r))
         else (fst r, snd (snd r)))"
  by pat_completeness auto
termination
proof (relation "measure (\<lambda>(now, d, wheelId, lp).
          length (filter (\<lambda>p. eliminated_at p = None) (spin_participants d)))", goal_cases)
  case 1
  show ?case by simp
next
  case (2 now d wheelId lp r)
  have found: "\<exists>p \<in> set (spin_participants d). p_id p = fst c \<and> eliminated_at p = None"
    if "next_candidate d ps i = (Some c, j)" for ps i c j
    using that
  proof (induction d ps i rule: next_candidate.induct)
    case (1 d ps i)
    then show ?case
      by (simp add: next_candidate.simps[of d ps i] Let_def split: if_splits)
  qed
  have mark: "length (filter (\<lambda>p. eliminated_at p = None)
                 (map (\<lambda>p. if p_id p = k then p\<lparr>eliminated_at := Some t, eliminated_order := Some n\<rparr> else p) xs))
              < length (filter (\<lambda>p. eliminated_at p = None) xs)"
    if "\<exists>p \<in> set xs. p_id p = k \<and> eliminated_at p = None" for k t n and xs :: "participant list"
    using that
  proof (induction xs)
    case Nil
    then show ?case by simp
  next
    case (Cons x xs)
    have le: "length (filter (\<lambda>p. eliminated_at p = None)
                 (map (\<lambda>p. if p_id p = k then p\<lparr>eliminated_at := Some t, eliminated_order := Some n\<rparr> else p) ys))
              \<le> length (filter (\<lambda>p. eliminated_at p = None) ys)" for ys
      by (induction ys) auto
    show ?case
    proof (cases "p_id x = k \<and> eliminated_at x = None")
      case True
      then show ?thesis using le[of xs] by simp
    next
      case False
      then have "\<exists>p \<in> set xs. p_id p = k \<and> eliminated_at p = None" using Cons.prems by auto
      then show ?thesis using Cons.IH by auto
    qed
  qed
  have hd_active: "\<exists>p \<in> set (spin_participants d). p_id p = p_id (hd (active_rows d wheelId)) \<and> eliminated_at p = None"
    if "1 < length (active_rows d wheelId)"
  proof -
    from that have "hd (active_rows d wheelId) \<in> set (active_rows d wheelId)"
      by (cases "active_rows d wheelId") auto
    then show ?thesis by (auto simp: active_rows_def)
  qed
  from 2 have res: "snd (snd (eliminateOne now d wheelId lp)) = Rescheduled" by simp
  obtain found i where nc: "next_candidate d (participants lp) (idx lp) = (found, i)"
    by (cases "next_candidate d (participants lp) (idx lp)")
  define k where "k = fst (case found of Some cand \<Rightarrow> cand
                             | None \<Rightarrow> (p_id (hd (active_rows d wheelId)), user_id (hd (active_rows d wheelId))))"
  from res have many: "1 < length (active_rows d wheelId)"
    by (auto simp: eliminateOne_def Let_def split: if_splits)
  have ex: "\<exists>p \<in> set (spin_participants d). p_id p = k \<and> eliminated_at p = None"
  proof (cases found)
    case None
    then show ?thesis using hd_active[OF many] by (simp add: k_def)
  next
    case (Some c)
    then show ?thesis using found[of "participants lp" "idx lp" c i] nc by (simp add: k_def)
  qed
  have "spin_participants (fst (eliminateOne now d wheelId lp)) =
        map (\<lambda>p. if p_id p = k
                 then p\<lparr>eliminated_at := Some now,
                        eliminated_order := Some (int (length (wheel_rows d wheelId)))\<rparr>
                 else p) (spin_participants d)"
    using many nc
    by (auto simp: eliminateOne_def Let_def k_def emit_def split: option.splits)
  then show ?case using mark[OF ex] 2 by simp
qed

declare run_elimination.simps [simp del]

subsection \<open>Runs of joins and the pools\<close>


text \<open>A run of join requests; a rejected request leaves the database as it was.\<close>

fun join_all :: "schema \<Rightarrow> db \<Rightarrow> (nat \<times> nat) list \<Rightarrow> db" where
  "join_all sch d [] = d"
| "join_all sch d ((wheelId, uid) # rs) =
     join_all sch (case join sch d wheelId uid of Inl e \<Rightarrow> d | Inr d' \<Rightarrow> d') rs"



text \<open>The participant rows of one user in one wheel.\<close>

definition joined_rows :: "db \<Rightarrow> nat \<Rightarrow> nat \<Rightarrow> participant list" where
  "joined_rows d wid uid =
     filter (\<lambda>p. wheel_id p = wid \<and> user_id p = uid) (spin_participants d)"

subsection \<open>Runs of operations and the ledger\<close>




text \<open>The signed amounts recorded for one user.\<close>

definition ledger_sum :: "transaction list \<Rightarrow> nat \<Rightarrow> int" where
  "ledger_sum txs uid = sum_list (map amount (filter (\<lambda>t. tx_user t = uid) txs))"


text \<open>The credit that refunds one participant row.\<close>

definition refund_tx :: "nat \<Rightarrow> string \<Rightarrow> int \<Rightarrow> participant \<Rightarrow> transaction" where
  "refund_tx wid reason fee p =
     \<lparr>tx_user = user_id p, amount = fee, tx_kind = Credit, tx_meta = MReason wid reason\<rparr>"

section \<open>The single-draw service: \<^verbatim>\<open>gameService\<close> and its socket handlers\<close>

text \<open>
  The second implementation (required by the socket handlers as \<^verbatim>\<open>./gameService\<close>)
  stores wheels, joins and users through Prisma, keeps the secret seeds in the process
  global \<^verbatim>\<open>__wheelSeeds\<close> and takes a Redis lock while a wheel is started.
\<close>

subsection \<open>Numbers and strings of the draw\<close>

text \<open>\<^verbatim>\<open>String(n)\<close> for an integer \<open>n\<close>.\<close>

definition digit_char :: "nat \<Rightarrow> char" where
  "digit_char n = ''0123456789'' ! (n mod 10)"

fun dec :: "nat \<Rightarrow> string" where
  "dec n = (if n < 10 then [digit_char n] else dec (n div 10) @ [digit_char n])"

declare dec.simps [simp del]

definition js_String :: "int \<Rightarrow> string" where
  "js_String n = (if n < 0 then CHR ''-'' # dec (nat (- n)) else dec (nat n))"

text \<open>
  A natural number read as a double: exact up to 53 bits, beyond that rounded to the
  nearest representable value, ties to even.
\<close>

fun bitlen :: "nat \<Rightarrow> nat" where
  "bitlen n = (if n = 0 then 0 else Suc (bitlen (n div 2)))"

declare bitlen.simps [simp del]

definition to_double :: "nat \<Rightarrow> nat" where
  "to_double n =
     (if bitlen n \<le> 53 then n
      else
        let e = bitlen n - 53;
            q = n div 2 ^ e;
            r = n mod 2 ^ e;
            h = 2 ^ (e - 1)
        in (if h < r \<or> (r = h \<and> odd q) then q + 1 else q) * 2 ^ e)"

text \<open>
  \<^verbatim>\<open>digest('hex')\<close> of a 32-byte digest, given as the number it encodes: 64 lower-case
  hexadecimal digits, most significant first.
\<close>

definition hex_digit :: "nat \<Rightarrow> char" where
  "hex_digit n = ''0123456789abcdef'' ! (n mod 16)"

definition digest_hex :: "nat \<Rightarrow> string" where
  "digest_hex n = map (\<lambda>i. hex_digit (n div 16 ^ (63 - i))) [0..<64]"

definition hex_value :: "char \<Rightarrow> nat option" where
  "hex_value c = map_of (zip ''0123456789abcdef'' [0..<16]) c"

text \<open>
  \<^verbatim>\<open>parseInt(s, 16)\<close> on a string without white space, sign or \<^verbatim>\<open>0x\<close> prefix (a slice of
  a hex digest has none): the leading hexadecimal digits, \<^verbatim>\<open>NaN\<close> (\<open>None\<close>) when there
  are none.
\<close>

fun parse_hex :: "string \<Rightarrow> nat \<Rightarrow> nat" where
  "parse_hex [] acc = acc"
| "parse_hex (c # cs) acc =
     (case hex_value c of None \<Rightarrow> acc | Some v \<Rightarrow> parse_hex cs (16 * acc + v))"

definition parseInt16 :: "string \<Rightarrow> int option" where
  "parseInt16 s =
     (case s of
        [] \<Rightarrow> None
      | c # cs \<Rightarrow>
          (case hex_value c of
             None \<Rightarrow> None
           | Some v \<Rightarrow> Some (int (to_double (parse_hex cs v)))))"

text \<open>
  \<^verbatim>\<open>a % b\<close> and \<^verbatim>\<open>a < b\<close> on numbers that may be \<^verbatim>\<open>NaN\<close>. The remainder takes the sign
  of the dividend and is \<^verbatim>\<open>NaN\<close> for a zero divisor; a comparison with \<^verbatim>\<open>NaN\<close> is false.
\<close>

definition js_mod :: "int option \<Rightarrow> int \<Rightarrow> int option" where
  "js_mod a b =
     (case a of
        None \<Rightarrow> None
      | Some x \<Rightarrow> if b = 0 then None else Some (sgn x * (\<bar>x\<bar> mod \<bar>b\<bar>)))"

definition js_less :: "int option \<Rightarrow> int \<Rightarrow> bool" where
  "js_less a b = (case a of None \<Rightarrow> False | Some x \<Rightarrow> x < b)"

subsection \<open>The weighted draw\<close>

text \<open>
  What the service takes from its surroundings: SHA-256 and HMAC-SHA256 of
  \<^verbatim>\<open>crypto\<close> (the latter as the number its 32 bytes encode), the status a new wheel
  row gets from the Prisma schema, which is not among the sources, and the payment mock.
\<close>

record env =
  sha256_hex :: "string \<Rightarrow> string"
  hmac_sha256 :: "string \<Rightarrow> string \<Rightarrow> nat"
  initial_status :: string
  charge :: "nat \<Rightarrow> int \<Rightarrow> bool"

text \<open>A segment's weight is an integer or missing.\<close>

record segment =
  label :: string
  weight :: "int option"

definition weight_or_1 :: "segment \<Rightarrow> int" where
  "weight_or_1 seg = or_default (weight seg) 1"

text \<open>\<^verbatim>\<open>parseInt(h.slice(0, 15), 16)\<close> for \<^verbatim>\<open>h\<close> the HMAC of \<^verbatim>\<open>String(nonce)\<close> under the seed.\<close>

definition digest_num :: "env \<Rightarrow> string \<Rightarrow> int \<Rightarrow> int option" where
  "digest_num ev serverSeed nonce =
     (let h = digest_hex (hmac_sha256 ev serverSeed (js_String nonce))
      in parseInt16 (take 15 h))"

definition totalWeight :: "segment list \<Rightarrow> int" where
  "totalWeight segs = foldl (\<lambda>s seg. s + weight_or_1 seg) 0 segs"

text \<open>The \<^verbatim>\<open>for\<close> loop, from index \<open>i\<close> with accumulator \<open>acc\<close>; \<open>None\<close> when it runs out.\<close>

fun walk :: "int option \<Rightarrow> segment list \<Rightarrow> int \<Rightarrow> nat \<Rightarrow> nat option" where
  "walk pick [] acc i = None"
| "walk pick (seg # segs) acc i =
     (let acc' = acc + weight_or_1 seg
      in if js_less pick acc' then Some i else walk pick segs acc' (Suc i))"

definition deterministicSpinIndex :: "env \<Rightarrow> string \<Rightarrow> int \<Rightarrow> segment list \<Rightarrow> int" where
  "deterministicSpinIndex ev serverSeed nonce segs =
     (let num = digest_num ev serverSeed nonce;
          pick = js_mod num (totalWeight segs)
      in case walk pick segs 0 0 of
           Some i \<Rightarrow> int i
         | None \<Rightarrow> int (length segs) - 1)"

subsection \<open>Store, seeds and messages\<close>

text \<open>
  Columns that no statement reads (\<^verbatim>\<open>title\<close>, \<^verbatim>\<open>maxPlayers\<close>, \<^verbatim>\<open>startsAt\<close>) are left out.
\<close>

record game_wheel =
  gw_id :: nat
  hostId :: nat
  segments :: "segment list"
  entryFee :: int
  wheel_status :: string
  serverSeedHash :: string
  serverSeed :: "string option"

record game_join =
  join_id :: nat
  userId :: nat
  wheelId :: nat
  paid :: bool
  payout :: "int option"

datatype game_error =
    AlreadyStarting
  | GameWheelNotFound
  | NotWaiting
  | MissingServerSeed
  | TypeError
  | RecordNotFound
  | ReferenceError
  | PaymentFailed

text \<open>What reaches clients: broadcasts and acknowledgements.\<close>

datatype message =
    WheelCreatedMsg game_wheel
  | PlayerJoinedMsg nat nat
  | AckWheel game_wheel
  | AckJoin game_join
  | AckFailure game_error

text \<open>
  \<open>ledger\<close> stands for the transaction records of the data model. The service has no
  statement that writes one, so no operation below touches it.
\<close>

record game =
  wheels :: "game_wheel list"
  wheel_ids :: nat
  join_rows :: "game_join list"
  join_ids :: nat
  balances :: "nat \<rightharpoonup> int"
  wheelSeeds :: "nat \<rightharpoonup> string"
  locks :: "nat list"
  sent :: "message list"
  ledger :: "transaction list"

definition send :: "message \<Rightarrow> game \<Rightarrow> game" where
  "send m s = s\<lparr>sent := sent s @ [m]\<rparr>"

definition find_wheel :: "game \<Rightarrow> nat \<Rightarrow> game_wheel option" where
  "find_wheel s wid = find (\<lambda>w. gw_id w = wid) (wheels s)"

subsection \<open>Creating, joining and starting\<close>

text \<open>
  \<^verbatim>\<open>createWheel\<close>; \<open>seed\<close> is the value of \<^verbatim>\<open>crypto.randomBytes(32).toString('hex')\<close>.
  Only the hash goes into the row.
\<close>

definition createWheel ::
  "env \<Rightarrow> string \<Rightarrow> game \<Rightarrow> nat \<Rightarrow> segment list \<Rightarrow> int \<Rightarrow> (game_wheel \<times> string) \<times> game" where
  "createWheel ev seed s host segs fee =
     (let seedHash = sha256_hex ev seed;
          wheel = \<lparr>gw_id = Suc (wheel_ids s), hostId = host, segments = segs, entryFee = fee,
                   wheel_status = initial_status ev, serverSeedHash = seedHash,
                   serverSeed = None\<rparr>;
          s1 = s\<lparr>wheels := wheels s @ [wheel], wheel_ids := Suc (wheel_ids s)\<rparr>
      in ((wheel, seed), s1))"

text \<open>The handler of \<^verbatim>\<open>wheel:create\<close>.\<close>

definition on_wheel_create :: "env \<Rightarrow> string \<Rightarrow> game \<Rightarrow> nat \<Rightarrow> segment list \<Rightarrow> int \<Rightarrow> game" where
  "on_wheel_create ev seed s host segs fee =
     (let ((wheel, serverSeed), s1) = createWheel ev seed s host segs fee;
          s2 = s1\<lparr>wheelSeeds := (wheelSeeds s1)(gw_id wheel \<mapsto> serverSeed)\<rparr>;
          s3 = send (WheelCreatedMsg wheel) s2
      in send (AckWheel wheel) s3)"

text \<open>
  The handler of \<^verbatim>\<open>wheel:join\<close>. Whether \<^verbatim>\<open>payment.charge\<close> succeeds is up to the
  environment (\<^const>\<open>charge\<close>); the handler itself touches no balance.
\<close>

definition on_wheel_join :: "env \<Rightarrow> game \<Rightarrow> nat \<Rightarrow> nat \<Rightarrow> game" where
  "on_wheel_join ev s uid wid =
     (case find_wheel s wid of
        None \<Rightarrow> send (AckFailure GameWheelNotFound) s
      | Some wheel \<Rightarrow>
          if \<not> charge ev uid (entryFee wheel) then send (AckFailure PaymentFailed) s
          else
            let jn = \<lparr>join_id = Suc (join_ids s), userId = uid, wheelId = wid, paid = True,
                      payout = None\<rparr>;
                s1 = s\<lparr>join_rows := join_rows s @ [jn], join_ids := Suc (join_ids s)\<rparr>;
                s2 = send (PlayerJoinedMsg wid uid) s1
            in send (AckJoin jn) s2)"

text \<open>
  \<^verbatim>\<open>startWheel\<close>; \<open>nonce\<close> is the value of \<^verbatim>\<open>Date.now()\<close>. The function never returns
  normally. Before the payout it throws on a held lock, a missing wheel, a wheel that is not
  \<^verbatim>\<open>waiting\<close>, a missing seed, or, inside the transaction, on an empty player list
  (\<^verbatim>\<open>players[NaN]\<close> is undefined) and on a winner without a user row; the lock is then
  left to expire. After the transaction has committed and the lock is released, building
  the payload of \<^verbatim>\<open>wheel:finished\<close> reads the identifier \<^verbatim>\<open>winningSegment\<close>, which is
  declared nowhere (the local is named \<^verbatim>\<open>winnerSegment\<close>): a \<^verbatim>\<open>ReferenceError\<close>, so the
  message is not sent and nothing is returned. The result is the error thrown and the
  state left behind.
\<close>

definition startWheel :: "env \<Rightarrow> int \<Rightarrow> game \<Rightarrow> nat \<Rightarrow> game_error \<times> game" where
  "startWheel ev nonce s wid =
     (if wid \<in> set (locks s) then (AlreadyStarting, s)
      else
        let s1 = s\<lparr>locks := wid # locks s\<rparr>
        in case find_wheel s1 wid of
             None \<Rightarrow> (GameWheelNotFound, s1)
           | Some wheel \<Rightarrow>
               if wheel_status wheel \<noteq> ''waiting'' then (NotWaiting, s1)
               else
                 let players = filter (\<lambda>j. wheelId j = wid \<and> paid j) (join_rows s1);
                     pool = int (length players) * entryFee wheel
                 in case wheelSeeds s1 wid of
                      None \<Rightarrow> (MissingServerSeed, s1)
                    | Some seed \<Rightarrow>
                        if seed = [] then (MissingServerSeed, s1)
                        else
                          let winningIndex = deterministicSpinIndex ev seed nonce (segments wheel);
                              num = digest_num ev seed nonce;
                              winnerIdx = js_mod num (int (length players))
                          in case winnerIdx of
                               None \<Rightarrow> (TypeError, s1)
                             | Some i \<Rightarrow>
                                 let winnerJoin = players ! nat i
                                 in case balances s1 (userId winnerJoin) of
                                      None \<Rightarrow> (RecordNotFound, s1)
                                    | Some b \<Rightarrow>
                                        let s2 = s1\<lparr>join_rows :=
                                                   map (\<lambda>j. if join_id j = join_id winnerJoin
                                                            then j\<lparr>payout := Some pool\<rparr> else j)
                                                     (join_rows s1),
                                                 balances :=
                                                   (balances s1)(userId winnerJoin \<mapsto> b + pool),
                                                 wheels :=
                                                   map (\<lambda>w. if gw_id w = wid
                                                            then w\<lparr>wheel_status := ''finished'',
                                                                   serverSeed := Some seed\<rparr>
                                                            else w) (wheels s1)\<rparr>;
                                            s3 = s2\<lparr>locks := removeAll wid (locks s2)\<rparr>
                                        in (ReferenceError, s3))"

text \<open>The handler of \<^verbatim>\<open>wheel:start\<close> reports the error in its acknowledgement.\<close>

definition on_wheel_start :: "env \<Rightarrow> int \<Rightarrow> game \<Rightarrow> nat \<Rightarrow> game" where
  "on_wheel_start ev nonce s wid =
     (let (e, s1) = startWheel ev nonce s wid in send (AckFailure e) s1)"

text \<open>Requests arriving at the socket, with the random seed and the clock value they draw.\<close>

datatype request =
    CreateReq string nat "segment list" int
  | JoinReq nat nat
  | StartReq int nat

fun handle :: "env \<Rightarrow> game \<Rightarrow> request \<Rightarrow> game" where
  "handle ev s (CreateReq seed host segs fee) = on_wheel_create ev seed s host segs fee"
| "handle ev s (JoinReq uid wid) = on_wheel_join ev s uid wid"
| "handle ev s (StartReq nonce wid) = on_wheel_start ev nonce s wid"

definition serve :: "env \<Rightarrow> game \<Rightarrow> request list \<Rightarrow> game" where
  "serve ev s rs = foldl (handle ev) s rs"

text \<open>A server that has just started, with the given user balances.\<close>

definition fresh :: "(nat \<rightharpoonup> int) \<Rightarrow> game" where
  "fresh bal =
     \<lparr>wheels = [], wheel_ids = 0, join_rows = [], join_ids = 0, balances = bal,
      wheelSeeds = Map.empty, locks = [], sent = [], ledger = []\<rparr>"

text \<open>The seed a message lets its receiver read, if any.\<close>

fun seed_shown :: "message \<Rightarrow> string option" where
  "seed_shown (WheelCreatedMsg w) = serverSeed w"
| "seed_shown (AckWheel w) = serverSeed w"
| "seed_shown (PlayerJoinedMsg wid uid) = None"
| "seed_shown (AckJoin j) = None"
| "seed_shown (AckFailure e) = None"

subsection \<open>Cumulative weights and the guard on seeds\<close>

text \<open>
  The cumulative weight up to and including index \<open>i\<close>, and lists whose weights, where
  present, are not negative.
\<close>

definition cumulative :: "segment list \<Rightarrow> nat \<Rightarrow> int" where
  "cumulative segs i = sum_list (map weight_or_1 (take (Suc i) segs))"


text \<open>
  A wheel row as the payout of a start leaves it, and as it was when the wheel was created.
\<close>

definition finish_row :: "string \<Rightarrow> game_wheel \<Rightarrow> game_wheel" where
  "finish_row seed w = w\<lparr>wheel_status := ''finished'', serverSeed := Some seed\<rparr>"

definition as_created :: "env \<Rightarrow> game_wheel \<Rightarrow> game_wheel" where
  "as_created ev w = w\<lparr>wheel_status := initial_status ev, serverSeed := None\<rparr>"

text \<open>
  What the handlers keep true about seeds: wheel ids are unique and never ahead of the
  counter; a seed held in memory hashes to the commitment of its wheel; a seed stored in a
  row belongs to a finished wheel and hashes to its commitment; no message sent so far
  shows a seed; and every row still carries the commitment that was broadcast when the
  wheel was created.
\<close>

definition seeds_guarded :: "env \<Rightarrow> game \<Rightarrow> bool" where
  "seeds_guarded ev s \<longleftrightarrow>
     distinct (map gw_id (wheels s))
     \<and> (\<forall>w \<in> set (wheels s). gw_id w \<le> wheel_ids s)
     \<and> (\<forall>w \<in> set (wheels s). \<forall>sd. wheelSeeds s (gw_id w) = Some sd \<longrightarrow>
          sha256_hex ev sd = serverSeedHash w)
     \<and> (\<forall>w \<in> set (wheels s). \<forall>sd. serverSeed w = Some sd \<longrightarrow>
          wheel_status w = ''finished'' \<and> sha256_hex ev sd = serverSeedHash w)
     \<and> (\<forall>m \<in> set (sent s). seed_shown m = None)
     \<and> (\<forall>w \<in> set (wheels s). WheelCreatedMsg (as_created ev w) \<in> set (sent s))"

section \<open>Sample states\<close>

definition demo_schema :: schema where
  "demo_schema = \<lparr>unique_wheel_user = True, default_min_participants = 3\<rparr>"

definition demo_user :: "int \<Rightarrow> user" where
  "demo_user c = \<lparr>coins = c, is_admin = False, username = ''player''\<rparr>"

definition demo_wheel :: "int \<Rightarrow> wheel" where
  "demo_wheel fee =
     \<lparr>w_id = 1, owner_id = 9, entry_fee = fee, status = Pending, winner_pool = 0,
      admin_pool = 0, app_pool = 0, min_participants = 3, started_at = None,
      finished_at = None\<rparr>"

text \<open>Three players with 500 coins each, an admin, and one pending wheel with the given fee.\<close>

definition demo_db :: "int \<Rightarrow> db" where
  "demo_db fee =
     \<lparr>users = [1 \<mapsto> demo_user 500, 2 \<mapsto> demo_user 500, 3 \<mapsto> demo_user 500,
               9 \<mapsto> \<lparr>coins = 0, is_admin = True, username = ''admin''\<rparr>],
      spin_wheels = [demo_wheel fee], wheel_seq = 1, spin_participants = [],
      participant_seq = 0, transactions = [], config = Map.empty, emitted = []\<rparr>"



text \<open>All three players have joined the wheel with fee 100.\<close>

definition three_joined :: db where
  "three_joined = join_all demo_schema (demo_db 100) [(1, 1), (1, 2), (1, 3)]"

text \<open>
  A stand-in environment for running the service: string reversal for SHA-256, and an
  HMAC whose first fifteen hex digits spell the sum of the lengths of key and message.
\<close>

definition demo_env :: env where
  "demo_env =
     \<lparr>sha256_hex = rev, hmac_sha256 = (\<lambda>k m. (length k + length m) * 16 ^ 49),
      initial_status = ''waiting'', charge = (\<lambda>uid fee. True)\<rparr>"

definition demo_segments :: "segment list" where
  "demo_segments =
     [\<lparr>label = ''a'', weight = None\<rparr>, \<lparr>label = ''b'', weight = Some 2\<rparr>,
      \<lparr>label = ''c'', weight = Some 0\<rparr>]"

text \<open>Users 7 and 8 hold 1000 each and have both joined wheel 1 (fee 100, seed \<open>ab\<close>).\<close>

definition demo_game :: game where
  "demo_game =
     serve demo_env (fresh [7 \<mapsto> 1000, 8 \<mapsto> 1000])
       [CreateReq ''ab'' 1 demo_segments 100, JoinReq 7 1, JoinReq 8 1]"

text \<open>The same run followed by a start request at clock value 7.\<close>

definition demo_finished :: game where
  "demo_finished =
     serve demo_env (fresh [7 \<mapsto> 1000, 8 \<mapsto> 1000])
       [CreateReq ''ab'' 1 demo_segments 100, JoinReq 7 1, JoinReq 8 1, StartReq 7 1]"

text \<open>
  The wheel of \<^const>\<open>three_joined\<close> started by its deadline timer at time 180 (the
  shuffle leaves the order as it is), the loop variables that start hands to its timer,
  and the state in which the loop, ticking from time 187, comes to rest.
\<close>

definition started :: db where
  "started = fst (autoStartWheel 180 id three_joined 1)"

definition started_loop :: elim_loop where
  "started_loop = \<lparr>participants = [(1, 1), (2, 2), (3, 3)], idx = 0\<rparr>"

definition finished :: db where
  "finished = fst (run_elimination 187 started 1 started_loop)"

text \<open>Only two players joined; the deadline timer aborts the wheel and refunds them.\<close>

definition aborted :: db where
  "aborted = fst (autoStartWheel 180 id (join_all demo_schema (demo_db 100) [(1, 1), (1, 2)]) 1)"

lemmas demo_defs = demo_schema_def demo_user_def demo_wheel_def demo_db_def

lemmas db_defs = get_wheel_def update_wheel_def add_coins_def insert_transaction_def emit_def
  wheel_rows_def active_rows_def getConfigSplit_def or_default_def

section \<open>Properties of the SQL backend\<close>

subsection \<open>Reading and updating wheel rows\<close>

lemma find_map_same_id:
  assumes "\<And>w. w_id (f w) = w_id w"
  shows "find (\<lambda>w. w_id w = k) (map (\<lambda>w. if w_id w = wid then f w else w) ws)
       = (if k = wid then map_option f (find (\<lambda>w. w_id w = k) ws)
          else find (\<lambda>w. w_id w = k) ws)"
  using assms by (induction ws) auto

lemma get_wheel_update_wheel:
  assumes "\<And>w. w_id (f w) = w_id w"
  shows "get_wheel (update_wheel wid f d) k
       = (if k = wid then map_option f (get_wheel d k) else get_wheel d k)"
  unfolding get_wheel_def update_wheel_def using find_map_same_id[OF assms] by simp

lemma get_wheel_cong: "spin_wheels d' = spin_wheels d \<Longrightarrow> get_wheel d' k = get_wheel d k"
  by (simp add: get_wheel_def)

subsection \<open>What a successful join changes\<close>







subsection \<open>Repeated joins\<close>




text \<open>
  Without the constraint nothing in the handler looks at earlier rows: a pending wheel and
  enough coins are all a join needs, however often the user has joined before.
\<close>

lemma join_without_constraint:
  assumes "\<not> unique_wheel_user sch"
    and "get_wheel d wid = Some w" and "status w = Pending"
    and "users d uid = Some u" and "entry_fee w \<le> coins u"
  shows "\<not> isl (join sch d wid uid)"
  using assms by (simp add: join_def Let_def)






subsection \<open>The default entry fee\<close>





subsection \<open>Refunds\<close>

lemma refund_rows_effect:
  assumes "get_wheel d wid = Some w"
  shows "\<exists>d1. refund_rows wid reason ps d = Some d1
      \<and> d1 = d\<lparr>users := users d1, transactions := transactions d1\<rparr>
      \<and> transactions d1 = transactions d @ map (refund_tx wid reason (entry_fee w)) ps
      \<and> (\<forall>uid. users d1 uid = map_option
            (\<lambda>u. u\<lparr>coins := coins u + entry_fee w * int (length (filter (\<lambda>p. user_id p = uid) ps))\<rparr>)
            (users d uid))"
  using assms
proof (induction ps arbitrary: d)
  case Nil
  then show ?case by (simp add: option.map_ident)
next
  case (Cons p ps)
  define d2 where "d2 = insert_transaction (user_id p) (entry_fee w) Credit (MReason wid reason)
                          (add_coins (user_id p) (entry_fee w) d)"
  have gw: "get_wheel d2 wid = Some w"
    using Cons.prems by (simp add: d2_def get_wheel_def insert_transaction_def add_coins_def split: option.splits)
  have step: "refund_rows wid reason (p # ps) d = refund_rows wid reason ps d2"
    using Cons.prems by (simp add: d2_def Let_def)
  have tx2: "transactions d2 = transactions d @ [refund_tx wid reason (entry_fee w) p]"
    by (simp add: d2_def insert_transaction_def add_coins_def refund_tx_def split: option.splits)
  have us2: "users d2 uid = (if uid = user_id p then map_option (\<lambda>u. u\<lparr>coins := coins u + entry_fee w\<rparr>) (users d uid) else users d uid)" for uid
    by (simp add: d2_def insert_transaction_def add_coins_def split: option.splits)
  have rest: "d2 = d\<lparr>users := users d2, transactions := transactions d2\<rparr>"
    by (simp add: d2_def insert_transaction_def add_coins_def split: option.splits)
  from Cons.IH[OF gw] obtain d1 where
    r: "refund_rows wid reason ps d2 = Some d1" and
    same: "d1 = d2\<lparr>users := users d1, transactions := transactions d1\<rparr>" and
    tx: "transactions d1 = transactions d2 @ map (refund_tx wid reason (entry_fee w)) ps" and
    us: "\<forall>uid. users d1 uid = map_option
            (\<lambda>u. u\<lparr>coins := coins u + entry_fee w * int (length (filter (\<lambda>p. user_id p = uid) ps))\<rparr>)
            (users d2 uid)"
    by blast
  have "d1 = d\<lparr>users := users d1, transactions := transactions d1\<rparr>"
    using same rest by (metis (no_types) db.surjective db.update_convs(1) db.update_convs(6))
  moreover have "transactions d1 = transactions d @ map (refund_tx wid reason (entry_fee w)) (p # ps)"
    using tx tx2 by simp
  moreover have "\<forall>uid. users d1 uid = map_option
            (\<lambda>u. u\<lparr>coins := coins u + entry_fee w * int (length (filter (\<lambda>q. user_id q = uid) (p # ps)))\<rparr>)
            (users d uid)"
  proof
    fix uid
    show "users d1 uid = map_option
            (\<lambda>u. u\<lparr>coins := coins u + entry_fee w * int (length (filter (\<lambda>q. user_id q = uid) (p # ps)))\<rparr>)
            (users d uid)"
      using us[rule_format, of uid] us2[of uid]
      by (cases "users d uid") (auto simp: algebra_simps)
  qed
  ultimately show ?case using step r by simp
qed

lemma refundWheel_effect:
  assumes "get_wheel d wid = Some w"
  shows "get_wheel (refundWheel now d wid reason) wid
           = Some (w\<lparr>status := Aborted, finished_at := Some now\<rparr>)"
    and "transactions (refundWheel now d wid reason)
           = transactions d @ map (refund_tx wid reason (entry_fee w)) (wheel_rows d wid)"
    and "users (refundWheel now d wid reason) uid
           = map_option (\<lambda>u. u\<lparr>coins := coins u + entry_fee w * int (length (joined_rows d wid uid))\<rparr>)
               (users d uid)"
    and "spin_participants (refundWheel now d wid reason) = spin_participants d"
proof -
  from refund_rows_effect[OF assms, of reason "wheel_rows d wid"] obtain d1 where
    r: "refund_rows wid reason (wheel_rows d wid) d = Some d1" and
    same: "d1 = d\<lparr>users := users d1, transactions := transactions d1\<rparr>" and
    tx: "transactions d1 = transactions d @ map (refund_tx wid reason (entry_fee w)) (wheel_rows d wid)" and
    us: "\<forall>uid. users d1 uid = map_option
            (\<lambda>u. u\<lparr>coins := coins u + entry_fee w * int (length (filter (\<lambda>p. user_id p = uid) (wheel_rows d wid)))\<rparr>)
            (users d uid)"
    by blast
  have rw: "refundWheel now d wid reason
          = update_wheel wid (\<lambda>w. w\<lparr>status := Aborted, finished_at := Some now\<rparr>) d1"
    using r by (simp add: refundWheel_def)
  have sw: "spin_wheels d1 = spin_wheels d" and sp: "spin_participants d1 = spin_participants d"
    using same by (metis db.select_convs db.surjective db.update_convs)+
  have jr: "filter (\<lambda>p. user_id p = uid) (wheel_rows d wid) = joined_rows d wid uid"
    by (simp add: wheel_rows_def joined_rows_def conj_commute)
  show "get_wheel (refundWheel now d wid reason) wid
           = Some (w\<lparr>status := Aborted, finished_at := Some now\<rparr>)"
    using assms get_wheel_cong[OF sw] by (simp add: rw get_wheel_update_wheel)
  show "transactions (refundWheel now d wid reason)
           = transactions d @ map (refund_tx wid reason (entry_fee w)) (wheel_rows d wid)"
    using tx by (simp add: rw update_wheel_def)
  show "users (refundWheel now d wid reason) uid
           = map_option (\<lambda>u. u\<lparr>coins := coins u + entry_fee w * int (length (joined_rows d wid uid))\<rparr>)
               (users d uid)"
    using us[rule_format, of uid] jr by (simp add: rw update_wheel_def)
  show "spin_participants (refundWheel now d wid reason) = spin_participants d"
    using sp by (simp add: rw update_wheel_def)
qed

text \<open>
  C8. Aborting a wheel credits, for every participant row, exactly the wheel's entry fee
  to the row's user, whatever the pools hold (they stay on the row, untouched and unpaid),
  appends one credit transaction per row that carries the wheel and the reason, and sets
  the status to aborted.
\<close>

theorem refund_returns_entry_fee:
  "get_wheel d wid = Some w \<longrightarrow>
     get_wheel (refundWheel now d wid reason) wid
        = Some (w\<lparr>status := Aborted, finished_at := Some now\<rparr>)
     \<and> transactions (refundWheel now d wid reason)
        = transactions d @ map (refund_tx wid reason (entry_fee w)) (wheel_rows d wid)
     \<and> users (refundWheel now d wid reason) uid
        = map_option
            (\<lambda>u. u\<lparr>coins := coins u + entry_fee w * int (length (joined_rows d wid uid))\<rparr>)
            (users d uid)"
  by (simp add: refundWheel_effect)

lemma three_joined_fields:
  "users three_joined = [1 \<mapsto> demo_user 400, 2 \<mapsto> demo_user 400, 3 \<mapsto> demo_user 400,
               9 \<mapsto> \<lparr>coins = 0, is_admin = True, username = ''admin''\<rparr>]"
  "spin_wheels three_joined = [(demo_wheel 100)\<lparr>winner_pool := 210, admin_pool := 60, app_pool := 30\<rparr>]"
  "spin_participants three_joined = map (\<lambda>i. \<lparr>p_id = i, wheel_id = 1, user_id = i, eliminated_at = None, eliminated_order = None\<rparr>) [1, 2, 3]"
  "transactions three_joined = map (\<lambda>i. \<lparr>tx_user = i, amount = - 100, tx_kind = Debit, tx_meta = MWheel 1\<rparr>) [1, 2, 3]"
  by (simp_all add: three_joined_def join_def demo_defs db_defs Let_def fun_upd_twist)

text \<open>Three participants, fee 100: each is back at 500 coins.\<close>

theorem refund_returns_entry_fee_witness:
  "get_wheel three_joined 1
     = Some ((demo_wheel 100)\<lparr>winner_pool := 210, admin_pool := 60, app_pool := 30\<rparr>)
   \<and> map (\<lambda>uid. map_option coins (users three_joined uid)) [1, 2, 3]
       = [Some 400, Some 400, Some 400]
   \<and> map (\<lambda>uid. map_option coins (users (refundWheel 50 three_joined 1 ''late'') uid)) [1, 2, 3]
       = [Some 500, Some 500, Some 500]
   \<and> map_option status (get_wheel (refundWheel 50 three_joined 1 ''late'') 1) = Some Aborted
   \<and> drop 3 (transactions (refundWheel 50 three_joined 1 ''late''))
       = map (\<lambda>uid. \<lparr>tx_user = uid, amount = 100, tx_kind = Credit,
                      tx_meta = MReason 1 ''late''\<rparr>) [1, 2, 3]"
proof -
  let ?w = "(demo_wheel 100)\<lparr>winner_pool := 210, admin_pool := 60, app_pool := 30\<rparr>"
  have w: "get_wheel three_joined 1 = Some ?w"
    by (simp add: get_wheel_def three_joined_fields demo_wheel_def)
  note r = refund_returns_entry_fee[of three_joined 1 ?w 50 "''late''"]
  from r[of 1] r[of 2] r[of 3] w show ?thesis
    by (simp add: three_joined_fields joined_rows_def wheel_rows_def refund_tx_def
        demo_wheel_def demo_user_def)
qed

subsection \<open>Balances and the ledger\<close>

lemma ledger_sum_append [simp]: "ledger_sum (a @ b) uid = ledger_sum a uid + ledger_sum b uid"
  by (simp add: ledger_sum_def)

lemma ledger_sum_Nil [simp]: "ledger_sum [] uid = 0"
  by (simp add: ledger_sum_def)





















subsection \<open>Ticks of the elimination loop\<close>

lemma mark_one_active:
  assumes "distinct (map p_id xs)" and "r \<in> set xs" and "p_id r = k"
    and "wheel_id r = wid" and "eliminated_at r = None"
  shows "length (filter (\<lambda>p. wheel_id p = wid \<and> eliminated_at p = None)
            (map (\<lambda>p. if p_id p = k then p\<lparr>eliminated_at := Some t, eliminated_order := Some n\<rparr> else p) xs)) + 1
       = length (filter (\<lambda>p. wheel_id p = wid \<and> eliminated_at p = None) xs)"
  using assms
proof (induction xs)
  case Nil
  then show ?case by simp
next
  case (Cons x xs)
  show ?case
  proof (cases "x = r")
    case True
    have "p_id p \<noteq> k" if "p \<in> set xs" for p
    proof
      assume "p_id p = k"
      then have "p_id r = p_id p" using Cons.prems(3) by simp
      then have "p_id r \<in> p_id ` set xs" using that by (simp add: image_iff) blast
      then show False using Cons.prems(1) True by simp
    qed
    then have "map (\<lambda>p. if p_id p = k then p\<lparr>eliminated_at := Some t, eliminated_order := Some n\<rparr> else p) xs = xs"
      by (induction xs) auto
    then show ?thesis using True Cons.prems by simp
  next
    case False
    then have r: "r \<in> set xs" using Cons.prems(2) by auto
    have "p_id x \<noteq> k"
    proof
      assume "p_id x = k"
      then have "p_id x = p_id r" using Cons.prems(3) by simp
      then have "p_id x \<in> p_id ` set xs" using r by (simp add: image_iff) blast
      then show False using Cons.prems(1) by simp
    qed
    then show ?thesis using Cons.IH r Cons.prems by simp
  qed
qed

lemma next_candidate_in_list:
  "next_candidate d ps i = (Some c, j) \<Longrightarrow> c \<in> set ps
     \<and> (\<exists>p \<in> set (spin_participants d). p_id p = fst c \<and> eliminated_at p = None)"
proof (induction d ps i rule: next_candidate.induct)
  case (1 d ps i)
  then show ?case
    by (auto simp: next_candidate.simps[of d ps i] Let_def split: if_splits)
qed

text \<open>
  With row ids unique and the loop's candidates rows of the wheel, a tick that sets the
  next timer takes exactly one row out of the wheel's active rows.
\<close>

lemma tick_eliminates_exactly_one:
  assumes ids: "distinct (map p_id (spin_participants d))"
    and cands: "\<forall>c \<in> set (participants lp). \<forall>p \<in> set (spin_participants d).
                  p_id p = fst c \<longrightarrow> wheel_id p = wid"
    and res: "snd (snd (eliminateOne now d wid lp)) = Rescheduled"
  shows "length (active_rows (fst (eliminateOne now d wid lp)) wid) + 1
           = length (active_rows d wid)"
proof -
  from res have many: "1 < length (active_rows d wid)"
    by (auto simp: eliminateOne_def Let_def split: if_splits)
  obtain found i where nc: "next_candidate d (participants lp) (idx lp) = (found, i)"
    by (cases "next_candidate d (participants lp) (idx lp)")
  define k where "k = fst (case found of Some cand \<Rightarrow> cand
      | None \<Rightarrow> (p_id (hd (active_rows d wid)), user_id (hd (active_rows d wid))))"
  have sp: "spin_participants (fst (eliminateOne now d wid lp)) =
        map (\<lambda>p. if p_id p = k
                 then p\<lparr>eliminated_at := Some now,
                        eliminated_order := Some (int (length (wheel_rows d wid)))\<rparr>
                 else p) (spin_participants d)"
    using many nc
    by (auto simp: eliminateOne_def Let_def k_def emit_def split: option.splits)
  have "\<exists>r \<in> set (spin_participants d). p_id r = k \<and> wheel_id r = wid \<and> eliminated_at r = None"
  proof (cases found)
    case None
    from many have "hd (active_rows d wid) \<in> set (active_rows d wid)"
      by (cases "active_rows d wid") auto
    then show ?thesis using None by (auto simp: k_def active_rows_def)
  next
    case (Some c)
    with nc next_candidate_in_list[of d "participants lp" "idx lp" c i]
    obtain p where "c \<in> set (participants lp)" "p \<in> set (spin_participants d)"
      "p_id p = fst c" "eliminated_at p = None" by auto
    then show ?thesis using cands Some by (auto simp: k_def)
  qed
  then obtain r where r: "r \<in> set (spin_participants d)" "p_id r = k" "wheel_id r = wid"
    "eliminated_at r = None" by blast
  show ?thesis
    unfolding active_rows_def sp
    by (rule mark_one_active[OF ids r])
qed

text \<open>The tick that finds one active row left pays that row's user and stops.\<close>

lemma last_tick_pays_winner:
  assumes "active_rows d wid = [r]"
  shows "eliminateOne now d wid lp = (finalizeWinner now d wid (user_id r), lp, Done)"
  using assms by (simp add: eliminateOne_def)

lemma finalizeWinner_credits_pool:
  assumes "get_wheel d wid = Some w" and "users d winner = Some u" and "owner_id w \<noteq> winner"
    and "0 \<le> winner_pool w"
  shows "map_option coins (users (finalizeWinner now d wid winner) winner)
           = Some (coins u + winner_pool w)"
    and "map_option status (get_wheel (finalizeWinner now d wid winner) wid) = Some Finished"
  using assms
  by (auto simp: finalizeWinner_def Let_def emit_def insert_transaction_def add_coins_def
      get_wheel_def update_wheel_def find_map_same_id split: option.splits)

text \<open>
  Whatever row a rescheduling tick marks, the order it writes is the number of all
  participant rows of the wheel, and ticks do not change that number.
\<close>

lemma tick_order_is_row_count:
  assumes "snd (snd (eliminateOne now d wid lp)) = Rescheduled"
  shows "\<exists>k. spin_participants (fst (eliminateOne now d wid lp)) =
           map (\<lambda>p. if p_id p = k
                    then p\<lparr>eliminated_at := Some now,
                           eliminated_order := Some (int (length (wheel_rows d wid)))\<rparr>
                    else p) (spin_participants d)"
proof -
  from assms have many: "\<not> length (active_rows d wid) \<le> 1"
    by (auto simp: eliminateOne_def Let_def split: if_splits)
  obtain found i where nc: "next_candidate d (participants lp) (idx lp) = (found, i)"
    by (cases "next_candidate d (participants lp) (idx lp)")
  show ?thesis
    using many nc
    by (auto simp: eliminateOne_def Let_def emit_def split: option.splits)
qed

lemma tick_keeps_row_count:
  "length (wheel_rows (fst (eliminateOne now d wid lp)) wid) = length (wheel_rows d wid)"
proof (cases "length (active_rows d wid) \<le> 1")
  case True
  then show ?thesis
    by (auto simp: eliminateOne_def finalizeWinner_def Let_def wheel_rows_def
        update_wheel_def emit_def insert_transaction_def add_coins_def split: option.splits)
next
  case False
  obtain found i where nc: "next_candidate d (participants lp) (idx lp) = (found, i)"
    by (cases "next_candidate d (participants lp) (idx lp)")
  have "length (filter (\<lambda>p. wheel_id p = wid) (map (\<lambda>p. if p_id p = k then p\<lparr>eliminated_at := a, eliminated_order := b\<rparr> else p) xs))
      = length (filter (\<lambda>p. wheel_id p = wid) xs)" for k a b and xs :: "participant list"
    by (induction xs) auto
  then show ?thesis
    using False nc
    by (auto simp: eliminateOne_def Let_def wheel_rows_def emit_def split: option.splits)
qed

text \<open>The deadline callback checks the status first and leaves a wheel that is not pending alone.\<close>

lemma autoStart_noop_unless_pending:
  assumes "get_wheel d wid = Some w" and "status w \<noteq> Pending"
  shows "autoStartWheel now sh d wid = (d, None)"
  using assms by (simp add: autoStartWheel_def)

subsection \<open>The loop on a wheel of three\<close>

lemma started_fields:
  "users started = users three_joined"
  "spin_participants started = spin_participants three_joined"
  "transactions started = transactions three_joined"
  "spin_wheels started = [(demo_wheel 100)\<lparr>winner_pool := 210, admin_pool := 60, app_pool := 30,
       status := Active, started_at := Some 180\<rparr>]"
  "startElimination id started 1 = Some started_loop"
  by (simp_all add: started_def started_loop_def autoStartWheel_def startElimination_def
      three_joined_fields db_defs demo_wheel_def demo_user_def Let_def)

lemma tick1:
  "eliminateOne 187 started 1 started_loop = (fst (eliminateOne 187 started 1 started_loop), started_loop\<lparr>idx := 1\<rparr>, Rescheduled)"
  "spin_participants (fst (eliminateOne 187 started 1 started_loop)) =
     [\<lparr>p_id = 1, wheel_id = 1, user_id = 1, eliminated_at = Some 187, eliminated_order = Some 3\<rparr>,
      \<lparr>p_id = 2, wheel_id = 1, user_id = 2, eliminated_at = None, eliminated_order = None\<rparr>,
      \<lparr>p_id = 3, wheel_id = 1, user_id = 3, eliminated_at = None, eliminated_order = None\<rparr>]"
  "users (fst (eliminateOne 187 started 1 started_loop)) = users three_joined"
  "transactions (fst (eliminateOne 187 started 1 started_loop)) = transactions three_joined"
  "spin_wheels (fst (eliminateOne 187 started 1 started_loop)) = spin_wheels started"
  by (simp_all add: eliminateOne_def started_fields started_loop_def three_joined_fields
      db_defs demo_user_def next_candidate.simps Let_def)

lemma finished_fields:
  "spin_participants finished =
     [\<lparr>p_id = 1, wheel_id = 1, user_id = 1, eliminated_at = Some 187, eliminated_order = Some 3\<rparr>,
      \<lparr>p_id = 2, wheel_id = 1, user_id = 2, eliminated_at = Some 194, eliminated_order = Some 3\<rparr>,
      \<lparr>p_id = 3, wheel_id = 1, user_id = 3, eliminated_at = None, eliminated_order = None\<rparr>]"
  "users finished = [1 \<mapsto> demo_user 400, 2 \<mapsto> demo_user 400, 3 \<mapsto> demo_user 610,
               9 \<mapsto> \<lparr>coins = 60, is_admin = True, username = ''admin''\<rparr>]"
  "spin_wheels finished = [(demo_wheel 100)\<lparr>winner_pool := 210, admin_pool := 60, app_pool := 30,
       status := Finished, started_at := Some 180, finished_at := Some 201\<rparr>]"
  "transactions finished = transactions three_joined @
     [\<lparr>tx_user = 3, amount = 210, tx_kind = Credit, tx_meta = MRole 1 ''winner''\<rparr>,
      \<lparr>tx_user = 9, amount = 60, tx_kind = Credit, tx_meta = MRole 1 ''admin''\<rparr>]"
  "snd (run_elimination 187 started 1 started_loop) = Done"
  by (simp_all add: finished_def run_elimination.simps eliminateOne_def finalizeWinner_def
      started_fields started_loop_def three_joined_fields
      db_defs demo_user_def demo_wheel_def next_candidate.simps Let_def fun_upd_twist)

text \<open>
  C3 on three participants. The loop eliminates one participant per tick (at 187 and 194),
  stops with one left, and pays that participant the winner pool of 210. The elimination
  orders written are 3 and 3, the row count of the wheel both times: they do not increase.
\<close>

theorem elimination_order_repeats:
  "map status (spin_wheels started) = [Active]
   \<and> map eliminated_at (spin_participants finished) = [Some 187, Some 194, None]
   \<and> map eliminated_order (spin_participants finished) = [Some 3, Some 3, None]
   \<and> map status (spin_wheels finished) = [Finished]
   \<and> map winner_pool (spin_wheels finished) = [210]
   \<and> map_option coins (users started 3) = Some 400
   \<and> map_option coins (users finished 3) = Some 610"
  by (simp add: finished_fields started_fields three_joined_fields demo_wheel_def demo_user_def)

lemma aborted_fields:
  "map status (spin_wheels aborted) = [Aborted]"
  "spin_participants aborted =
     [\<lparr>p_id = 1, wheel_id = 1, user_id = 1, eliminated_at = None, eliminated_order = None\<rparr>,
      \<lparr>p_id = 2, wheel_id = 1, user_id = 2, eliminated_at = None, eliminated_order = None\<rparr>]"
  "map (\<lambda>uid. map_option coins (users aborted uid)) [1, 2] = [Some 500, Some 500]"
  "users aborted 1 \<noteq> None"
  by (simp_all add: aborted_def autoStartWheel_def refundWheel_def join_def
      demo_defs db_defs Let_def)

text \<open>
  C7 for the elimination tick. \<^verbatim>\<open>eliminateOne\<close> does not look at the status of the wheel.
  Fired once more on the finished wheel, it finds the winner's row as the only active one
  and runs the payout again: the winner goes from 610 to 820 and the owner from 60 to 120,
  with two more transactions. Fired on the aborted wheel, whose two refunded participants
  are still active rows, it eliminates one of them.
\<close>

theorem tick_after_terminal_state:
  "map status (spin_wheels finished) = [Finished]
   \<and> map_option coins (users finished 3) = Some 610
   \<and> map_option coins (users finished 9) = Some 60
   \<and> map_option coins (users (fst (eliminateOne 208 finished 1 (started_loop\<lparr>idx := 2\<rparr>))) 3)
       = Some 820
   \<and> map_option coins (users (fst (eliminateOne 208 finished 1 (started_loop\<lparr>idx := 2\<rparr>))) 9)
       = Some 120
   \<and> length (transactions (fst (eliminateOne 208 finished 1 (started_loop\<lparr>idx := 2\<rparr>))))
       = length (transactions finished) + 2
   \<and> map status (spin_wheels aborted) = [Aborted]
   \<and> map eliminated_at (spin_participants aborted) = [None, None]
   \<and> map eliminated_at (spin_participants (fst (eliminateOne 208 aborted 1 started_loop)))
       = [Some 208, None]"
proof -
  have fin: "map_option coins (users (fst (eliminateOne 208 finished 1 (started_loop\<lparr>idx := 2\<rparr>))) 3)
       = Some 820"
    "map_option coins (users (fst (eliminateOne 208 finished 1 (started_loop\<lparr>idx := 2\<rparr>))) 9)
       = Some 120"
    "length (transactions (fst (eliminateOne 208 finished 1 (started_loop\<lparr>idx := 2\<rparr>))))
       = length (transactions finished) + 2"
    by (simp_all add: eliminateOne_def finalizeWinner_def finished_fields db_defs
        demo_wheel_def demo_user_def Let_def)
  have ab: "map eliminated_at (spin_participants (fst (eliminateOne 208 aborted 1 started_loop)))
       = [Some 208, None]"
    using aborted_fields(4)
    by (auto simp: eliminateOne_def aborted_fields(2) started_loop_def active_rows_def
        wheel_rows_def emit_def next_candidate.simps Let_def split: option.splits)
  show ?thesis
    using fin ab
    by (simp add: finished_fields aborted_fields demo_wheel_def demo_user_def)
qed

section \<open>Properties of the single-draw service\<close>

subsection \<open>The payout of a start\<close>

lemmas game_defs = serve_def fresh_def on_wheel_create_def createWheel_def on_wheel_join_def
  on_wheel_start_def send_def find_wheel_def

lemma demo_game_fields:
  "balances demo_game = [7 \<mapsto> 1000, 8 \<mapsto> 1000]"
  "wheelSeeds demo_game = [1 \<mapsto> ''ab'']"
  "locks demo_game = []" "ledger demo_game = []"
  "wheels demo_game = [\<lparr>gw_id = 1, hostId = 1, segments = demo_segments, entryFee = 100,
      wheel_status = ''waiting'', serverSeedHash = ''ba'', serverSeed = None\<rparr>]"
  "join_rows demo_game = [\<lparr>join_id = 1, userId = 7, wheelId = 1, paid = True, payout = None\<rparr>,
       \<lparr>join_id = 2, userId = 8, wheelId = 1, paid = True, payout = None\<rparr>]"
  by (simp_all add: demo_game_def demo_env_def game_defs Let_def)

lemma demo_digest: "digest_num demo_env ''ab'' 7 = Some 3"
  by (simp add: digest_num_def demo_env_def js_String_def dec.simps digest_hex_def
      hex_digit_def parseInt16_def hex_value_def to_double_def bitlen.simps upt_rec)


subsection \<open>The weighted draw\<close>

lemma cumulative_Cons_0 [simp]: "cumulative (s # segs) 0 = weight_or_1 s"
  by (simp add: cumulative_def)

lemma cumulative_Cons_Suc [simp]: "cumulative (s # segs) (Suc i) = weight_or_1 s + cumulative segs i"
  by (simp add: cumulative_def)





















subsection \<open>Commitment and seed\<close>

lemma startWheel_effect:
  assumes "startWheel ev nonce s wid = (e, s')"
  shows "sent s' = sent s" "wheelSeeds s' = wheelSeeds s" "wheel_ids s' = wheel_ids s"
    "ledger s' = ledger s"
    "(e \<noteq> ReferenceError \<and> wheels s' = wheels s)
     \<or> (e = ReferenceError \<and> (\<exists>seed wheel. wheelSeeds s wid = Some seed \<and> find_wheel s wid = Some wheel
           \<and> wheel_status wheel = ''waiting''
           \<and> wheels s' = map (\<lambda>w. if gw_id w = wid then finish_row seed w else w) (wheels s)))"
  using assms
  by (auto simp: startWheel_def Let_def find_wheel_def finish_row_def
      split: if_splits option.splits)

lemma seeds_guarded_fresh: "seeds_guarded ev (fresh bal)"
  by (simp add: seeds_guarded_def fresh_def)

lemma seeds_guarded_create:
  assumes "seeds_guarded ev s"
  shows "seeds_guarded ev (on_wheel_create ev seed s host segs fee)"
proof -
  define wheel where "wheel = \<lparr>gw_id = Suc (wheel_ids s), hostId = host, segments = segs,
      entryFee = fee, wheel_status = initial_status ev, serverSeedHash = sha256_hex ev seed,
      serverSeed = None\<rparr>"
  define s' where "s' = on_wheel_create ev seed s host segs fee"
  have f: "wheels s' = wheels s @ [wheel]" "wheel_ids s' = Suc (wheel_ids s)"
    "wheelSeeds s' = (wheelSeeds s)(Suc (wheel_ids s) \<mapsto> seed)"
    "sent s' = sent s @ [WheelCreatedMsg wheel, AckWheel wheel]"
    by (simp_all add: s'_def wheel_def on_wheel_create_def createWheel_def send_def Let_def)
  have w: "gw_id wheel = Suc (wheel_ids s)" "serverSeed wheel = None"
    "serverSeedHash wheel = sha256_hex ev seed" "as_created ev wheel = wheel"
    by (simp_all add: wheel_def as_created_def)
  from assms have old: "distinct (map gw_id (wheels s))"
    "\<forall>w \<in> set (wheels s). gw_id w \<le> wheel_ids s"
    "\<forall>w \<in> set (wheels s). \<forall>sd. wheelSeeds s (gw_id w) = Some sd \<longrightarrow>
          sha256_hex ev sd = serverSeedHash w"
    "\<forall>w \<in> set (wheels s). \<forall>sd. serverSeed w = Some sd \<longrightarrow>
          wheel_status w = ''finished'' \<and> sha256_hex ev sd = serverSeedHash w"
    "\<forall>m \<in> set (sent s). seed_shown m = None"
    "\<forall>w \<in> set (wheels s). WheelCreatedMsg (as_created ev w) \<in> set (sent s)"
    by (simp_all add: seeds_guarded_def)
  have new_id: "gw_id x \<noteq> Suc (wheel_ids s)" if "x \<in> set (wheels s)" for x
    using old(2) that by fastforce
  have "Suc (wheel_ids s) \<notin> gw_id ` set (wheels s)"
  proof
    assume "Suc (wheel_ids s) \<in> gw_id ` set (wheels s)"
    then obtain x where "x \<in> set (wheels s)" "gw_id x = Suc (wheel_ids s)" by force
    then show False using new_id by simp
  qed
  then have 1: "distinct (map gw_id (wheels s'))"
    using old(1) by (simp add: f w)
  have 2: "\<forall>x \<in> set (wheels s'). gw_id x \<le> wheel_ids s'"
    using old(2) by (auto simp: f w)
  have 3: "\<forall>x \<in> set (wheels s'). \<forall>sd. wheelSeeds s' (gw_id x) = Some sd \<longrightarrow>
          sha256_hex ev sd = serverSeedHash x"
    using old(3) new_id by (auto simp: f w)
  have 4: "\<forall>x \<in> set (wheels s'). \<forall>sd. serverSeed x = Some sd \<longrightarrow>
          wheel_status x = ''finished'' \<and> sha256_hex ev sd = serverSeedHash x"
    using old(4) by (auto simp: f w)
  have 5: "\<forall>m \<in> set (sent s'). seed_shown m = None"
    using old(5) by (auto simp: f w)
  have 6: "\<forall>x \<in> set (wheels s'). WheelCreatedMsg (as_created ev x) \<in> set (sent s')"
    using old(6) by (auto simp: f w)
  from 1 2 3 4 5 6 show ?thesis unfolding s'_def[symmetric] seeds_guarded_def by blast
qed

lemma seeds_guarded_join:
  assumes "seeds_guarded ev s"
  shows "seeds_guarded ev (on_wheel_join ev s uid wid)"
proof -
  define s' where "s' = on_wheel_join ev s uid wid"
  have f: "wheels s' = wheels s" "wheel_ids s' = wheel_ids s" "wheelSeeds s' = wheelSeeds s"
    by (simp_all add: s'_def on_wheel_join_def send_def Let_def split: option.splits)
  have "\<exists>ms. sent s' = sent s @ ms \<and> (\<forall>m \<in> set ms. seed_shown m = None)
          \<and> (\<forall>m \<in> set ms. \<forall>w. m \<noteq> WheelCreatedMsg w)"
    by (auto simp: s'_def on_wheel_join_def send_def Let_def split: option.splits)
  then obtain ms where ms: "sent s' = sent s @ ms" "\<forall>m \<in> set ms. seed_shown m = None"
    by blast
  show ?thesis
    using assms unfolding s'_def[symmetric] seeds_guarded_def f ms(1)
    using ms(2) by auto
qed

lemma seeds_guarded_start:
  assumes "seeds_guarded ev s"
  shows "seeds_guarded ev (on_wheel_start ev nonce s wid)"
proof -
  obtain e s1 where st: "startWheel ev nonce s wid = (e, s1)"
    by (cases "startWheel ev nonce s wid")
  define s' where "s' = on_wheel_start ev nonce s wid"
  have s': "s' = send (AckFailure e) s1"
    by (simp add: s'_def on_wheel_start_def st)
  note eff = startWheel_effect[OF st]
  have f: "wheels s' = wheels s1" "wheel_ids s' = wheel_ids s" "wheelSeeds s' = wheelSeeds s"
    "sent s' = sent s @ [AckFailure e]"
    using eff(1-3) by (simp_all add: s' send_def)
  from assms have old: "distinct (map gw_id (wheels s))"
    "\<forall>w \<in> set (wheels s). gw_id w \<le> wheel_ids s"
    "\<forall>w \<in> set (wheels s). \<forall>sd. wheelSeeds s (gw_id w) = Some sd \<longrightarrow>
          sha256_hex ev sd = serverSeedHash w"
    "\<forall>w \<in> set (wheels s). \<forall>sd. serverSeed w = Some sd \<longrightarrow>
          wheel_status w = ''finished'' \<and> sha256_hex ev sd = serverSeedHash w"
    "\<forall>m \<in> set (sent s). seed_shown m = None"
    "\<forall>w \<in> set (wheels s). WheelCreatedMsg (as_created ev w) \<in> set (sent s)"
    by (simp_all add: seeds_guarded_def)
  from eff(5) show ?thesis
  proof
    assume "e \<noteq> ReferenceError \<and> wheels s1 = wheels s"
    then show ?thesis
      using old unfolding s'_def[symmetric] seeds_guarded_def f by auto
  next
    assume "e = ReferenceError \<and> (\<exists>seed wheel. wheelSeeds s wid = Some seed
           \<and> find_wheel s wid = Some wheel \<and> wheel_status wheel = ''waiting''
           \<and> wheels s1 = map (\<lambda>w. if gw_id w = wid then finish_row seed w else w) (wheels s))"
    then obtain seed where seed: "wheelSeeds s wid = Some seed"
      and ws: "wheels s1 = map (\<lambda>w. if gw_id w = wid then finish_row seed w else w) (wheels s)"
      by blast
    let ?g = "\<lambda>w. if gw_id w = wid then finish_row seed w else w"
    have g: "gw_id (?g w) = gw_id w" "serverSeedHash (?g w) = serverSeedHash w"
      "as_created ev (?g w) = as_created ev w" for w
      by (simp_all add: finish_row_def as_created_def)
    have ids: "map gw_id (wheels s1) = map gw_id (wheels s)"
      unfolding ws by (simp add: finish_row_def)
    have mem: "\<exists>w0 \<in> set (wheels s). x = ?g w0" if "x \<in> set (wheels s1)" for x
      using that unfolding ws by auto
    have 1: "distinct (map gw_id (wheels s'))" using old(1) by (simp add: f ids)
    have 2: "\<forall>x \<in> set (wheels s'). gw_id x \<le> wheel_ids s'"
    proof
      fix x assume "x \<in> set (wheels s')"
      then obtain w0 where "w0 \<in> set (wheels s)" "x = ?g w0" using mem by (auto simp: f)
      then show "gw_id x \<le> wheel_ids s'" using old(2) g(1)[of w0] by (simp add: f)
    qed
    have 3: "\<forall>x \<in> set (wheels s'). \<forall>sd. wheelSeeds s' (gw_id x) = Some sd \<longrightarrow>
          sha256_hex ev sd = serverSeedHash x"
    proof (intro ballI allI impI)
      fix x sd assume "x \<in> set (wheels s')" and sd: "wheelSeeds s' (gw_id x) = Some sd"
      then obtain w0 where w0: "w0 \<in> set (wheels s)" "x = ?g w0" using mem by (auto simp: f)
      then show "sha256_hex ev sd = serverSeedHash x"
        using old(3) sd g(1,2)[of w0] by (simp add: f)
    qed
    have 4: "\<forall>x \<in> set (wheels s'). \<forall>sd. serverSeed x = Some sd \<longrightarrow>
          wheel_status x = ''finished'' \<and> sha256_hex ev sd = serverSeedHash x"
    proof (intro ballI allI impI)
      fix x sd assume "x \<in> set (wheels s')" and sd: "serverSeed x = Some sd"
      then obtain w0 where w0: "w0 \<in> set (wheels s)" "x = ?g w0" using mem by (auto simp: f)
      show "wheel_status x = ''finished'' \<and> sha256_hex ev sd = serverSeedHash x"
      proof (cases "gw_id w0 = wid")
        case True
        then have "x = finish_row seed w0" using w0(2) by simp
        then have "sd = seed" "wheel_status x = ''finished''" "serverSeedHash x = serverSeedHash w0"
          using sd by (simp_all add: finish_row_def)
        moreover have "sha256_hex ev seed = serverSeedHash w0"
          using old(3) w0(1) seed True by simp
        ultimately show ?thesis by simp
      next
        case False
        then have "x = w0" using w0(2) by simp
        then show ?thesis using old(4) w0(1) sd by simp
      qed
    qed
    have 5: "\<forall>m \<in> set (sent s'). seed_shown m = None"
      using old(5) by (auto simp: f)
    have 6: "\<forall>x \<in> set (wheels s'). WheelCreatedMsg (as_created ev x) \<in> set (sent s')"
    proof
      fix x assume "x \<in> set (wheels s')"
      then obtain w0 where w0: "w0 \<in> set (wheels s)" "x = ?g w0" using mem by (auto simp: f)
      then show "WheelCreatedMsg (as_created ev x) \<in> set (sent s')"
        using old(6) g(3)[of w0] by (simp add: f)
    qed
    from 1 2 3 4 5 6 show ?thesis unfolding s'_def[symmetric] seeds_guarded_def by blast
  qed
qed

lemma seeds_guarded_handle: "seeds_guarded ev s \<Longrightarrow> seeds_guarded ev (handle ev s r)"
  by (cases r) (simp_all add: seeds_guarded_create seeds_guarded_join seeds_guarded_start)

lemma seeds_guarded_serve: "seeds_guarded ev s \<Longrightarrow> seeds_guarded ev (serve ev s rs)"
  unfolding serve_def
  by (induction rs arbitrary: s) (simp_all add: seeds_guarded_handle)

lemma find_wheel_mem: "find_wheel s wid = Some w \<Longrightarrow> w \<in> set (wheels s) \<and> gw_id w = wid"
  unfolding find_wheel_def by (auto simp: find_Some_iff)

lemma find_finish_row:
  "find (\<lambda>w. gw_id w = wid) (map (\<lambda>w. if gw_id w = wid then finish_row seed w else w) ws)
     = map_option (finish_row seed) (find (\<lambda>w. gw_id w = wid) ws)"
  by (induction ws) (auto simp: finish_row_def)

lemma start_reveals_seed:
  assumes "seeds_guarded ev s" and "startWheel ev nonce s wid = (ReferenceError, s')"
  shows "\<exists>w sd. find_wheel s' wid = Some w \<and> wheel_status w = ''finished''
           \<and> serverSeed w = Some sd \<and> sha256_hex ev sd = serverSeedHash w
           \<and> WheelCreatedMsg (as_created ev w) \<in> set (sent s')"
proof -
  from startWheel_effect(5)[OF assms(2)] obtain seed wheel where
    seed: "wheelSeeds s wid = Some seed" and wheel: "find_wheel s wid = Some wheel" and
    ws: "wheels s' = map (\<lambda>w. if gw_id w = wid then finish_row seed w else w) (wheels s)"
    by blast
  from find_wheel_mem[OF wheel] have mem: "wheel \<in> set (wheels s)" and id: "gw_id wheel = wid"
    by simp_all
  from assms(1) mem seed id have h: "sha256_hex ev seed = serverSeedHash wheel"
    and pub: "WheelCreatedMsg (as_created ev wheel) \<in> set (sent s)"
    by (auto simp: seeds_guarded_def)
  have "find_wheel s' wid = Some (finish_row seed wheel)"
    using wheel unfolding find_wheel_def ws find_finish_row by simp
  moreover have "as_created ev (finish_row seed wheel) = as_created ev wheel"
    by (simp add: as_created_def finish_row_def)
  ultimately show ?thesis
    using h pub startWheel_effect(1)[OF assms(2)]
    by (simp add: finish_row_def)
qed

text \<open>
  C5. In every state the socket handlers can reach from a fresh server, each wheel row
  still carries the commitment that was broadcast at its creation; a row holds a seed only
  if the wheel is finished, and that seed hashes to the commitment; and no message sent so
  far lets a client read a seed. A start that gets as far as its payout stores the seed in
  the row in the same transaction that sets the status to finished. (The broadcast that
  would carry the seed afterwards is the one that fails with the \<^verbatim>\<open>ReferenceError\<close>.)
\<close>

theorem seed_hashes_to_commitment:
  "(\<forall>w \<in> set (wheels (serve ev (fresh bal) rs)).
       WheelCreatedMsg (as_created ev w) \<in> set (sent (serve ev (fresh bal) rs))
       \<and> (\<forall>sd. serverSeed w = Some sd \<longrightarrow>
             wheel_status w = ''finished'' \<and> sha256_hex ev sd = serverSeedHash w))
   \<and> (\<forall>m \<in> set (sent (serve ev (fresh bal) rs)). seed_shown m = None)
   \<and> (startWheel ev nonce (serve ev (fresh bal) rs) wid = (ReferenceError, s') \<longrightarrow>
        (\<exists>w sd. find_wheel s' wid = Some w \<and> wheel_status w = ''finished''
           \<and> serverSeed w = Some sd \<and> sha256_hex ev sd = serverSeedHash w
           \<and> WheelCreatedMsg (as_created ev w) \<in> set (sent s')))"
proof -
  have inv: "seeds_guarded ev (serve ev (fresh bal) rs)"
    by (rule seeds_guarded_serve[OF seeds_guarded_fresh])
  then show ?thesis
    using start_reveals_seed[OF inv, of nonce wid s']
    unfolding seeds_guarded_def by blast
qed

text \<open>
  Seed \<open>ab\<close>, commitment \<open>ba\<close> under the stand-in hash: the seed appears in the row
  once the wheel is finished, and in none of the seven messages.
\<close>

lemma demo_finished_step: "demo_finished = on_wheel_start demo_env 7 demo_game 1"
  by (simp add: demo_finished_def demo_game_def serve_def)

lemma demo_start: "startWheel demo_env 7 demo_game 1 = (ReferenceError, snd (startWheel demo_env 7 demo_game 1))"
  by (simp add: startWheel_def demo_game_fields demo_digest find_wheel_def js_mod_def Let_def)

lemma demo_finished_fields:
  "wheels demo_finished = [\<lparr>gw_id = 1, hostId = 1, segments = demo_segments, entryFee = 100,
      wheel_status = ''finished'', serverSeedHash = ''ba'', serverSeed = Some ''ab''\<rparr>]"
  "sent demo_finished = sent demo_game @ [AckFailure ReferenceError]"
  by (simp_all add: demo_finished_step on_wheel_start_def send_def startWheel_def
      demo_game_fields demo_digest find_wheel_def js_mod_def Let_def)

lemma demo_game_sent:
  "sent demo_game =
     [WheelCreatedMsg \<lparr>gw_id = 1, hostId = 1, segments = demo_segments, entryFee = 100,
        wheel_status = ''waiting'', serverSeedHash = ''ba'', serverSeed = None\<rparr>,
      AckWheel \<lparr>gw_id = 1, hostId = 1, segments = demo_segments, entryFee = 100,
        wheel_status = ''waiting'', serverSeedHash = ''ba'', serverSeed = None\<rparr>,
      PlayerJoinedMsg 1 7,
      AckJoin \<lparr>join_id = 1, userId = 7, wheelId = 1, paid = True, payout = None\<rparr>,
      PlayerJoinedMsg 1 8,
      AckJoin \<lparr>join_id = 2, userId = 8, wheelId = 1, paid = True, payout = None\<rparr>]"
  by (simp add: demo_game_def demo_env_def game_defs Let_def)

theorem seed_hashes_to_commitment_witness:
  "wheels demo_finished
     = [\<lparr>gw_id = 1, hostId = 1, segments = demo_segments, entryFee = 100,
         wheel_status = ''finished'', serverSeedHash = ''ba'', serverSeed = Some ''ab''\<rparr>]
   \<and> sha256_hex demo_env ''ab'' = ''ba''
   \<and> hd (sent demo_finished)
       = WheelCreatedMsg \<lparr>gw_id = 1, hostId = 1, segments = demo_segments, entryFee = 100,
           wheel_status = ''waiting'', serverSeedHash = ''ba'', serverSeed = None\<rparr>
   \<and> length (sent demo_finished) = 7
   \<and> list_all (\<lambda>m. seed_shown m = None) (sent demo_finished)
   \<and> fst (startWheel demo_env 7 demo_game 1) = ReferenceError
   \<and> map_option serverSeed (find_wheel (snd (startWheel demo_env 7 demo_game 1)) 1)
       = Some (Some ''ab'')"
proof -
  let ?bal = "[7 \<mapsto> 1000, 8 \<mapsto> (1000::int)]"
  have a: "(\<forall>w \<in> set (wheels demo_finished). \<forall>sd. serverSeed w = Some sd \<longrightarrow>
              sha256_hex demo_env sd = serverSeedHash w)
           \<and> (\<forall>m \<in> set (sent demo_finished). seed_shown m = None)"
    unfolding demo_finished_def
    using seed_hashes_to_commitment[of demo_env ?bal
      "[CreateReq ''ab'' 1 demo_segments 100, JoinReq 7 1, JoinReq 8 1, StartReq 7 1]"
      7 1 demo_game]
    by blast
  have b: "\<exists>w sd. find_wheel (snd (startWheel demo_env 7 demo_game 1)) 1 = Some w
             \<and> serverSeed w = Some sd \<and> sha256_hex demo_env sd = serverSeedHash w"
    using seed_hashes_to_commitment[of demo_env ?bal
      "[CreateReq ''ab'' 1 demo_segments 100, JoinReq 7 1, JoinReq 8 1]" 7 1
      "snd (startWheel demo_env 7 demo_game 1)"] demo_start
    unfolding demo_game_def by blast
  have ws: "wheels demo_finished
     = [\<lparr>gw_id = 1, hostId = 1, segments = demo_segments, entryFee = 100,
         wheel_status = ''finished'', serverSeedHash = ''ba'', serverSeed = Some ''ab''\<rparr>]"
    by (rule demo_finished_fields)
  from a ws have h: "sha256_hex demo_env ''ab'' = ''ba''"
    by simp
  from a have shown: "list_all (\<lambda>m. seed_shown m = None) (sent demo_finished)"
    by (simp add: list_all_iff)
  from b
  obtain w sd where "find_wheel (snd (startWheel demo_env 7 demo_game 1)) 1 = Some w"
    "serverSeed w = Some sd" "sha256_hex demo_env sd = serverSeedHash w"
    by blast
  moreover have "map_option serverSeedHash (find_wheel (snd (startWheel demo_env 7 demo_game 1)) 1) = Some ''ba''"
    by (simp add: startWheel_def demo_game_fields demo_digest find_wheel_def js_mod_def Let_def)
  ultimately have "map_option serverSeed (find_wheel (snd (startWheel demo_env 7 demo_game 1)) 1)
       = Some (Some ''ab'')"
    by (auto simp: demo_env_def)
  moreover have "fst (startWheel demo_env 7 demo_game 1) = ReferenceError"
    using demo_start by (metis fst_conv)
  ultimately show ?thesis using ws h shown
    by (simp add: demo_finished_fields demo_game_sent)
qed

end
